theory Spec2Isabelle
  imports Main
begin

section \<open>Data model of \<open>report_writer_new/main.py\<close>\<close>

subsection \<open>The two structured output schemas\<close>

text \<open>
  The pydantic models \<open>WordInsightAnalysis\<close> and \<open>WordBlueprintStructure\<close>, with their
  nested classes. The \<open>Literal\<close> field \<open>type\<close> is an enumeration; the optional
  \<open>description\<close> (\<open>str | None = None\<close>) is an option.
\<close>

datatype question_type = Open | SingleChoice | MultipleChoice

record ExistingInformation =
  document_type :: string
  target_audience :: string
  writing_purpose :: string
  style_requirement :: string
  key_content :: "string list"

record SupplementaryQuestion =
  question :: string
  options :: "string list"
  reason :: string
  type_tag :: question_type

record WordInsightAnalysis =
  existing_information :: ExistingInformation
  supplementary_questions :: "SupplementaryQuestion list"

record Section =
  subheading :: string
  points :: "string list"
  description :: "string option"

record WordBlueprintStructure =
  title :: string
  sections :: "Section list"
  estimated_length :: string

subsection \<open>Messages\<close>

text \<open>
  A chat message carries the name of its producer (\<open>source: str\<close>), a content that is
  free text (\<open>TextMessage\<close>) or one of the two structured models
  (\<open>StructuredMessage[...]\<close>, the team's \<open>custom_message_types\<close>), and a metadata
  dictionary from strings to strings.
\<close>

datatype payload =
  Text string
  | Insight WordInsightAnalysis
  | Blueprint WordBlueprintStructure

record message =
  source :: string
  content :: payload
  metadata :: "string \<rightharpoonup> string"

definition TextMessage :: "string \<Rightarrow> string \<Rightarrow> (string \<rightharpoonup> string) \<Rightarrow> message" where
  "TextMessage c s md = \<lparr>source = s, content = Text c, metadata = md\<rparr>"

section \<open>The selector function\<close>

text \<open>
  \<open>messages[-1]\<close> raises \<open>IndexError\<close> on an empty sequence; the model keeps that
  branch. Every message class of the declared element type has the attributes
  \<open>source\<close> and \<open>metadata\<close>, so \<open>hasattr(msg, "source")\<close> holds and only the truth
  value of \<open>msg.source\<close> (a non-empty string) is tested.
\<close>

datatype error = IndexError

text \<open>The loop that collects the names of the agents that have spoken.\<close>

definition agent_names :: "message list \<Rightarrow> string set" where
  "agent_names messages =
     fold (\<lambda>msg names. if source msg \<noteq> [] then insert (source msg) names else names)
       messages {}"

text \<open>
  The result is \<open>Inr (Some name)\<close> for a returned name, \<open>Inr None\<close> for Python's
  \<open>None\<close> (the value of \<open>dict.get\<close> on a missing key), and \<open>Inl IndexError\<close> for
  the exception.
\<close>

definition selector_func :: "message list \<Rightarrow> error + string option" where
  "selector_func messages =
     (let names = agent_names messages in
      if ''word_insight_json_agent'' \<notin> names then Inr (Some ''team_insight'')
      else if ''word_insight_json_agent'' \<in> names
            \<and> ''word_blueprint_json_agent'' \<notin> names then Inr (Some ''team_blueprint'')
      else if ''word_insight_json_agent'' \<in> names
            \<and> ''word_blueprint_json_agent'' \<in> names
            \<and> ''writer_agent'' \<notin> names then Inr (Some ''writer_agent'')
      else (case messages of
              [] \<Rightarrow> Inl IndexError
            | _ # _ \<Rightarrow> Inr (metadata (last messages) ''select_agent'')))"

text \<open>
  The task message that \<open>assistant_run\<close> submits: the text with the suffix
  \<open>/no_think\<close>, the source \<open>user\<close>, and the chosen agent under the metadata key
  \<open>select_agent\<close>.
\<close>

definition user_task :: "string \<Rightarrow> string \<Rightarrow> message" where
  "user_task task select_agent =
     TextMessage (task @ ''/no_think'') ''user'' [''select_agent'' \<mapsto> select_agent]"

section \<open>Teams and termination\<close>

text \<open>
  A round-robin team as the source configures it: a name, the participants in their
  order, and the sources named in its termination condition.
\<close>

record team =
  team_name :: string
  participants :: "string list"
  termination_sources :: "string list"

definition team_insight :: team where
  "team_insight =
     \<lparr>team_name = ''team_insight'',
      participants = [''word_insight_agent'', ''word_insight_json_agent''],
      termination_sources = [''word_insight_json_agent'']\<rparr>"

definition team_blueprint :: team where
  "team_blueprint =
     \<lparr>team_name = ''team_blueprint'',
      participants = [''word_blueprint_agent'', ''word_blueprint_json_agent''],
      termination_sources = [''word_blueprint_json_agent'']\<rparr>"





text \<open>
  Modelled from the spec: the class \<open>SourceMatchTermination\<close> is imported from the chat
  library and its code is not part of the repository. The spec gives the predicate as
  "producer identity == repair agent's identity" for a pair and as an "identity-set match
  against a configured target set" for the session: a turn fires the condition when its
  source is one of the configured sources.
\<close>

definition SourceMatchTermination :: "string list \<Rightarrow> message \<Rightarrow> bool" where
  "SourceMatchTermination sources msg \<longleftrightarrow> source msg \<in> set sources"

text \<open>
  The model-inference collaborator: for an agent's name and the accumulated context it
  returns a payload, or \<open>None\<close> when the inference call fails.
\<close>

type_synonym inference = "string \<Rightarrow> message list \<Rightarrow> payload option"

datatype failure =
  InferenceFailure
  | EmptyTeam
  | Undecided
  | UnknownParticipant string
  | SelectorRaised error

definition agent_turn :: "string \<Rightarrow> payload \<Rightarrow> message" where
  "agent_turn name c = \<lparr>source = name, content = c, metadata = Map.empty\<rparr>"

text \<open>
  Modelled from the spec: the run loop of \<open>RoundRobinGroupChat\<close> is library code that
  is not part of the repository. Following the protocol of the validating pair, the
  participants act in the order of the list, cyclically, each on the full accumulated
  context; each turn is appended, and the sub-run ends as soon as the termination
  condition holds of the turn just produced. The loop has no bound of its own, so the
  model takes fuel: \<open>None\<close> means that the sub-run has not ended within \<open>fuel\<close> turns.
  The result is the list of the turns of the sub-run, \<open>produced\<close> being those so far.
\<close>

fun round_robin ::
  "inference \<Rightarrow> team \<Rightarrow> nat \<Rightarrow> nat \<Rightarrow> message list \<Rightarrow> message list
     \<Rightarrow> (failure + message list) option" where
  "round_robin infer t 0 i ctx produced = None"
| "round_robin infer t (Suc fuel) i ctx produced =
     (if participants t = [] then Some (Inl EmptyTeam)
      else
        (let name = participants t ! (i mod length (participants t)) in
         case infer name (ctx @ produced) of
           None \<Rightarrow> Some (Inl InferenceFailure)
         | Some c \<Rightarrow>
             (let msg = agent_turn name c in
              if SourceMatchTermination (termination_sources t) msg
              then Some (Inr (produced @ [msg]))
              else round_robin infer t fuel (i + 1) ctx (produced @ [msg]))))"

section \<open>Structured output of the repair agents\<close>





section \<open>The session\<close>





section \<open>Example logs\<close>

text \<open>
  The log of a session as it grows over the runs of \<open>assistant_run\<close>: a task of the
  user, then the turns of the participant that was selected.
\<close>

definition no_insight :: WordInsightAnalysis where
  "no_insight =
     \<lparr>existing_information =
        \<lparr>document_type = [], target_audience = [], writing_purpose = [],
         style_requirement = [], key_content = []\<rparr>,
      supplementary_questions = []\<rparr>"

definition no_blueprint :: WordBlueprintStructure where
  "no_blueprint = \<lparr>title = [], sections = [], estimated_length = []\<rparr>"

text \<open>
  An inference collaborator that always answers: the two repair agents with the
  all-defaults value of their schema, every other agent with a fixed text.
\<close>

definition fixed_inference :: inference where
  "fixed_inference name ctx =
     Some (if name = ''word_insight_json_agent'' then Insight no_insight
           else if name = ''word_blueprint_json_agent'' then Blueprint no_blueprint
           else Text ''draft'')"


definition log_intake :: "message list" where
  "log_intake =
     [user_task ''annual report'' [],
      agent_turn ''word_insight_agent'' (Text ''draft''),
      agent_turn ''word_insight_json_agent'' (Insight no_insight)]"

definition log_planning :: "message list" where
  "log_planning =
     log_intake @
     [user_task ''go on'' [],
      agent_turn ''word_blueprint_agent'' (Text ''draft''),
      agent_turn ''word_blueprint_json_agent'' (Blueprint no_blueprint)]"

definition log_drafting :: "message list" where
  "log_drafting =
     log_planning @ [user_task ''write it'' [], agent_turn ''writer_agent'' (Text ''draft'')]"

text \<open>
  A log that an external orchestration could hand over: the turns of \<open>log_drafting\<close>
  in another order, some of them twice, with other contents.
\<close>

definition log_shuffled :: "message list" where
  "log_shuffled =
     [agent_turn ''writer_agent'' (Text ''first''),
      agent_turn ''word_blueprint_json_agent'' (Text ''not a blueprint''),
      agent_turn ''word_blueprint_agent'' (Text ''plan''),
      agent_turn ''word_insight_json_agent'' (Insight no_insight),
      agent_turn ''word_insight_json_agent'' (Insight no_insight),
      agent_turn ''word_insight_agent'' (Text ''x''),
      agent_turn ''writer_agent'' (Text ''second''),
      TextMessage ''other words'' ''user'' Map.empty]"

section \<open>Properties of the selector\<close>

lemma fold_names:
  "fold (\<lambda>msg names. if source msg \<noteq> [] then insert (source msg) names else names) ms acc
     = acc \<union> {s \<in> source ` set ms. s \<noteq> []}"
  by (induction ms arbitrary: acc) auto

lemma agent_names_eq: "agent_names ms = {s \<in> source ` set ms. s \<noteq> []}"
  by (simp add: agent_names_def fold_names)

lemma agent_names_empty: "agent_names [] = {}"
  by (simp add: agent_names_def)

lemma agent_names_mem:
  "s \<noteq> [] \<Longrightarrow> s \<in> agent_names ms \<longleftrightarrow> s \<in> source ` set ms"
  by (simp add: agent_names_eq)

text \<open>The selector with the name set replaced by membership in the sources of the log.\<close>

lemma selector_func_sources:
  "selector_func ms =
     (if ''word_insight_json_agent'' \<notin> source ` set ms then Inr (Some ''team_insight'')
      else if ''word_blueprint_json_agent'' \<notin> source ` set ms then Inr (Some ''team_blueprint'')
      else if ''writer_agent'' \<notin> source ` set ms then Inr (Some ''writer_agent'')
      else (case ms of [] \<Rightarrow> Inl IndexError
            | _ # _ \<Rightarrow> Inr (metadata (last ms) ''select_agent'')))"
  by (simp add: selector_func_def Let_def agent_names_mem)

text \<open>
  C1. If no turn of the log was produced by \<open>word_insight_json_agent\<close> (the empty log
  included), the selector returns \<open>team_insight\<close>, whatever the metadata of the turns.
\<close>

theorem selector_intake:
  "\<forall>m \<in> set ms. source m \<noteq> ''word_insight_json_agent''
   \<Longrightarrow> selector_func ms = Inr (Some ''team_insight'')"
  by (auto simp: selector_func_sources)

theorem selector_intake_witness:
  "selector_func [user_task ''write a report'' ''refiner_agent''] = Inr (Some ''team_insight'')
   \<and> selector_func [] = Inr (Some ''team_insight'')"
  using selector_intake [of "[user_task ''write a report'' ''refiner_agent'']"]
    selector_intake [of "[]"]
  by (simp add: user_task_def TextMessage_def)

lemmas example_defs = log_intake_def log_planning_def log_drafting_def log_shuffled_def
  user_task_def TextMessage_def agent_turn_def

text \<open>
  C2. If \<open>word_insight_json_agent\<close> has produced a turn and
  \<open>word_blueprint_json_agent\<close> has not, the selector returns \<open>team_blueprint\<close>.
\<close>

theorem selector_planning:
  "''word_insight_json_agent'' \<in> source ` set ms
   \<Longrightarrow> ''word_blueprint_json_agent'' \<notin> source ` set ms
   \<Longrightarrow> selector_func ms = Inr (Some ''team_blueprint'')"
  by (simp add: selector_func_sources)

theorem selector_planning_witness:
  "selector_func log_intake = Inr (Some ''team_blueprint'')"
  using selector_planning [of log_intake]
  by (simp add: example_defs)

text \<open>
  C3. If both repair agents have produced turns and \<open>writer_agent\<close> has not, the
  selector returns \<open>writer_agent\<close>; the statement holds for every metadata of every
  turn, so no override is consulted.
\<close>

theorem selector_drafting:
  "''word_insight_json_agent'' \<in> source ` set ms
   \<Longrightarrow> ''word_blueprint_json_agent'' \<in> source ` set ms
   \<Longrightarrow> ''writer_agent'' \<notin> source ` set ms
   \<Longrightarrow> selector_func ms = Inr (Some ''writer_agent'')"
  by (simp add: selector_func_sources)

theorem selector_drafting_witness:
  "selector_func (log_planning @ [user_task ''write it'' ''explainer_agent''])
     = Inr (Some ''writer_agent'')"
  using selector_drafting [of "log_planning @ [user_task ''write it'' ''explainer_agent'']"]
  by (simp add: example_defs)

text \<open>
  C4. If the two repair agents and \<open>writer_agent\<close> have all produced turns, the log
  is not empty and the selector returns what the metadata of the most recent turn holds
  under the key \<open>select_agent\<close>: that value when the key is present, \<open>None\<close> when it
  is absent.
\<close>

theorem selector_override:
  assumes "''word_insight_json_agent'' \<in> source ` set ms"
    and "''word_blueprint_json_agent'' \<in> source ` set ms"
    and "''writer_agent'' \<in> source ` set ms"
  shows "ms \<noteq> []
    \<and> selector_func ms = Inr (metadata (last ms) ''select_agent'')
    \<and> (\<forall>v. metadata (last ms) ''select_agent'' = Some v \<longrightarrow> selector_func ms = Inr (Some v))
    \<and> (''select_agent'' \<notin> dom (metadata (last ms)) \<longrightarrow> selector_func ms = Inr None)"
proof -
  from assms(1) have ne: "ms \<noteq> []" by auto
  then obtain m ms' where "ms = m # ms'" by (cases ms) auto
  with assms have eq: "selector_func ms = Inr (metadata (last ms) ''select_agent'')"
    by (simp add: selector_func_sources)
  show ?thesis using ne eq by (auto simp: domIff)
qed

theorem selector_override_witness:
  "selector_func (log_drafting @ [user_task ''polish it'' ''refiner_agent''])
     = Inr (Some ''refiner_agent'')
   \<and> selector_func log_drafting = Inr None"
  using selector_override [of "log_drafting @ [user_task ''polish it'' ''refiner_agent'']"]
    selector_override [of log_drafting]
  by (simp add: example_defs)

text \<open>
  C7. The selector depends on the log only through the set of the sources of its turns
  and the metadata of its most recent turn: two logs that agree on both get the same
  decision. Contents, order and multiplicity of the turns do not enter.
\<close>

theorem selector_deterministic:
  assumes "source ` set ms1 = source ` set ms2"
    and "ms1 \<noteq> [] \<Longrightarrow> ms2 \<noteq> [] \<Longrightarrow> metadata (last ms1) = metadata (last ms2)"
  shows "selector_func ms1 = selector_func ms2"
proof (cases "ms1 = []")
  case True
  with assms(1) have "ms2 = []" by simp
  with True show ?thesis by simp
next
  case False
  with assms(1) have ne2: "ms2 \<noteq> []" by auto
  with False assms(2) have "metadata (last ms1) = metadata (last ms2)" by simp
  moreover obtain a as where "ms1 = a # as" using False by (cases ms1) auto
  moreover obtain b bs where "ms2 = b # bs" using ne2 by (cases ms2) auto
  ultimately show ?thesis using assms(1)
    by (simp only: selector_func_sources list.case)
qed

theorem selector_deterministic_witness:
  "selector_func (log_drafting @ [user_task ''polish it'' ''refiner_agent''])
     = selector_func (log_shuffled @ [user_task ''again'' ''refiner_agent''])"
proof -
  have sources: "source ` set (log_drafting @ [user_task ''polish it'' ''refiner_agent''])
      = source ` set (log_shuffled @ [user_task ''again'' ''refiner_agent''])"
    by (auto simp: example_defs)
  have override: "metadata (last (log_drafting @ [user_task ''polish it'' ''refiner_agent'']))
      = metadata (last (log_shuffled @ [user_task ''again'' ''refiner_agent'']))"
    by (simp add: example_defs)
  from selector_deterministic [OF sources override] show ?thesis .
qed

text \<open>
  C8. The selector tests membership only: a log in which
  \<open>word_blueprint_json_agent\<close> has produced a turn and
  \<open>word_insight_json_agent\<close> has not still gets \<open>team_insight\<close>.
\<close>

theorem selector_order_tolerant:
  "''word_blueprint_json_agent'' \<in> source ` set ms
   \<Longrightarrow> ''word_insight_json_agent'' \<notin> source ` set ms
   \<Longrightarrow> selector_func ms = Inr (Some ''team_insight'')"
  by (simp add: selector_func_sources)

theorem selector_order_tolerant_witness:
  "selector_func
     [user_task ''annual report'' ''writer_agent'',
      agent_turn ''word_blueprint_json_agent'' (Blueprint no_blueprint)]
   = Inr (Some ''team_insight'')"
  using selector_order_tolerant [of
      "[user_task ''annual report'' ''writer_agent'',
        agent_turn ''word_blueprint_json_agent'' (Blueprint no_blueprint)]"]
  by (simp add: example_defs)

text \<open>
  C10. The selector is total: on every log it returns a decision and never raises
  \<open>IndexError\<close>. On the empty log the set of names is empty and the first branch
  returns \<open>team_insight\<close>; a log that gets past the first branch is not empty, so the
  most recent turn exists where it is read.
\<close>

theorem selector_total:
  "(\<exists>d. selector_func ms = Inr d)
   \<and> selector_func ms \<noteq> Inl IndexError
   \<and> agent_names [] = {}
   \<and> selector_func [] = Inr (Some ''team_insight'')
   \<and> (''word_insight_json_agent'' \<in> agent_names ms \<longrightarrow> ms \<noteq> [])"
  by (cases ms) (auto simp: selector_func_sources agent_names_eq)

theorem selector_total_witness:
  "(\<exists>d. selector_func log_drafting = Inr d) \<and> log_drafting \<noteq> []
   \<and> ''word_insight_json_agent'' \<in> agent_names log_drafting"
  using selector_total [of log_drafting]
  by (simp add: example_defs agent_names_def)

section \<open>Properties of the teams\<close>

lemma team_fields:
  "participants team_insight = [''word_insight_agent'', ''word_insight_json_agent'']"
  "termination_sources team_insight = [''word_insight_json_agent'']"
  "participants team_blueprint = [''word_blueprint_agent'', ''word_blueprint_json_agent'']"
  "termination_sources team_blueprint = [''word_blueprint_json_agent'']"
  by (simp_all add: team_insight_def team_blueprint_def)

text \<open>
  A team of a content agent and a repair agent that ends on the repair agent's turn runs
  exactly two turns when both inference calls answer.
\<close>

lemma pair_run:
  assumes ps: "participants t = [content_agent, repair_agent]"
    and ts: "termination_sources t = [repair_agent]"
    and ne: "content_agent \<noteq> repair_agent"
    and c1: "infer content_agent ctx = Some c1"
    and c2: "infer repair_agent (ctx @ [agent_turn content_agent c1]) = Some c2"
  shows "round_robin infer t (Suc (Suc fuel)) 0 ctx []
           = Some (Inr [agent_turn content_agent c1, agent_turn repair_agent c2])"
    and "round_robin infer t (Suc 0) 0 ctx [] = None"
  using assms by (simp_all add: SourceMatchTermination_def agent_turn_def)

text \<open>
  C6. For \<open>team_insight\<close> and for \<open>team_blueprint\<close>: the participants are the content
  agent, then the repair agent; when both inference calls answer, the sub-run appends the
  content agent's turn, then the repair agent's turn, and ends there (after one turn it
  has not ended); and the termination condition of the team holds of a turn exactly when
  its source is the repair agent.
\<close>

theorem validating_pair_run:
  assumes "(t, content_agent, repair_agent) =
             (team_insight, ''word_insight_agent'', ''word_insight_json_agent'')
           \<or> (t, content_agent, repair_agent) =
             (team_blueprint, ''word_blueprint_agent'', ''word_blueprint_json_agent'')"
    and "infer content_agent ctx = Some c1"
    and "infer repair_agent (ctx @ [agent_turn content_agent c1]) = Some c2"
  shows "participants t = [content_agent, repair_agent]
    \<and> round_robin infer t (Suc (Suc fuel)) 0 ctx []
        = Some (Inr [agent_turn content_agent c1, agent_turn repair_agent c2])
    \<and> round_robin infer t (Suc 0) 0 ctx [] = None
    \<and> (\<forall>m. SourceMatchTermination (termination_sources t) m \<longleftrightarrow> source m = repair_agent)"
proof -
  from assms(1) have ps: "participants t = [content_agent, repair_agent]"
    and ts: "termination_sources t = [repair_agent]"
    and ne: "content_agent \<noteq> repair_agent"
    by (auto simp: team_fields)
  from pair_run [OF ps ts ne assms(2) assms(3)] ps ts show ?thesis
    by (simp add: SourceMatchTermination_def)
qed

theorem validating_pair_run_witness:
  "round_robin fixed_inference team_insight (Suc (Suc 0)) 0 [user_task ''annual report'' []] []
     = Some (Inr [agent_turn ''word_insight_agent'' (Text ''draft''),
                  agent_turn ''word_insight_json_agent'' (Insight no_insight)])
   \<and> round_robin fixed_inference team_insight (Suc 0) 0 [user_task ''annual report'' []] [] = None"
proof -
  have content: "fixed_inference ''word_insight_agent'' [user_task ''annual report'' []]
      = Some (Text ''draft'')"
    by (simp add: fixed_inference_def)
  have repair: "fixed_inference ''word_insight_json_agent''
        ([user_task ''annual report'' []] @ [agent_turn ''word_insight_agent'' (Text ''draft'')])
      = Some (Insight no_insight)"
    by (simp add: fixed_inference_def)
  from validating_pair_run [OF disjI1 [OF refl] content repair, of 0] show ?thesis
    by blast
qed

section \<open>Properties of the repair step\<close>






section \<open>Properties of the session\<close>








end
